theory Spec2Isabelle
  imports Complex_Main
begin

section \<open>Data model of \<open>robot.py\<close>\<close>

text \<open>
  \<open>RobotStatus\<close> is the enumeration of the source; \<open>status_value\<close> is the \<open>.value\<close>
  of a member.
\<close>

datatype RobotStatus = ACTIVE | IDLE | ERROR | SHUTDOWN

fun status_value :: "RobotStatus \<Rightarrow> string" where
  "status_value ACTIVE = ''active''"
| "status_value IDLE = ''idle''"
| "status_value ERROR = ''error''"
| "status_value SHUTDOWN = ''shutdown''"

text \<open>
  A Python float is a finite number, an infinity or a NaN. The source only ever compares
  the field \<open>human_safety_impact\<close> with \<open>0.0\<close>; \<open>float_gt_zero x\<close> is the value of
  \<open>x > 0.0\<close> (false for a NaN).
\<close>

datatype pyfloat = Finite real | PosInf | NegInf | NaN

fun float_gt_zero :: "pyfloat \<Rightarrow> bool" where
  "float_gt_zero (Finite x) = (0 < x)"
| "float_gt_zero PosInf = True"
| "float_gt_zero NegInf = False"
| "float_gt_zero NaN = False"

text \<open>The dataclass \<open>Command\<close>; the optional target is \<open>None\<close> or a string.\<close>

record Command =
  action :: string
  target :: "string option"
  priority :: int
  human_safety_impact :: pyfloat

text \<open>
  \<open>LawViolationError\<close> with its attribute \<open>law_number\<close> and the message it was
  constructed with (the text of the exception is \<open>Law n Violation:\<close> and the message).
\<close>

datatype exn = LawViolationError (law_number: int) (message: string)

text \<open>
  The instance variables of \<open>Robot\<close>. The class variable \<open>total_robots_created\<close> is
  shared by all instances, so it is not a field: the constructor takes the counter and
  returns it incremented.
\<close>

record robot =
  robot_id :: string
  status :: RobotStatus
  energy :: int
  command_history :: "Command list"

definition MAX_ENERGY :: int where
  "MAX_ENERGY = 100"

definition MIN_ENERGY :: int where
  "MIN_ENERGY = 0"

definition Robot_init :: "string \<Rightarrow> int \<Rightarrow> robot \<times> int" where
  "Robot_init rid total_robots_created =
     (\<lparr>robot_id = rid, status = ACTIVE, energy = 100, command_history = []\<rparr>,
      total_robots_created + 1)"

section \<open>Strings\<close>

text \<open>
  A character is a code point below 256. \<open>str.lower\<close> maps the capital letters
  \<open>A\<close> to \<open>Z\<close> and the capital letters of the Latin-1 block (code points 192 to 222
  without the multiplication sign 215) to the letter 32 places later and leaves every
  other character as it is.
\<close>

definition lower_char :: "char \<Rightarrow> char" where
  "lower_char c =
     (let n = (of_char c :: nat)
      in if (65 \<le> n \<and> n \<le> 90) \<or> (192 \<le> n \<and> n \<le> 222 \<and> n \<noteq> 215)
         then char_of (n + 32) else c)"

definition lower :: "string \<Rightarrow> string" where
  "lower s = map lower_char s"

text \<open>The text of a non-negative integer in base ten, as \<open>str\<close> and \<open>format\<close> write it.\<close>

definition digit_char :: "nat \<Rightarrow> char" where
  "digit_char d = char_of (48 + d)"

fun str_nat :: "nat \<Rightarrow> string" where
  "str_nat n = (if n < 10 then [digit_char n] else str_nat (n div 10) @ [digit_char (n mod 10)])"

declare str_nat.simps [simp del]

text \<open>
  The format specification \<open>03d\<close>: the sign of a negative number, then zeros up to a
  total width of three characters, then the digits.
\<close>

definition format_03d :: "int \<Rightarrow> string" where
  "format_03d i =
     (let sign = (if i < 0 then ''-'' else '''');
          ds = str_nat (nat \<bar>i\<bar>)
      in sign @ replicate (3 - length sign - length ds) (CHR ''0'') @ ds)"

text \<open>An optional string inside an f-string: \<open>None\<close> is written as the word \<open>None\<close>.\<close>

fun format_target :: "string option \<Rightarrow> string" where
  "format_target None = ''None''"
| "format_target (Some t) = t"

text \<open>\<open>command.target or 'surroundings'\<close>: \<open>None\<close> and the empty string are falsy.\<close>

fun target_or_surroundings :: "string option \<Rightarrow> string" where
  "target_or_surroundings None = ''surroundings''"
| "target_or_surroundings (Some t) = (if t = [] then ''surroundings'' else t)"

section \<open>The methods of \<open>Robot\<close>\<close>

definition consume_energy :: "robot \<Rightarrow> int \<Rightarrow> robot" where
  "consume_energy self amount =
     (let self1 = self\<lparr>energy := max MIN_ENERGY (energy self - amount)\<rparr>
      in if energy self1 = 0 then self1\<lparr>status := SHUTDOWN\<rparr> else self1)"

text \<open>The dictionary that \<open>check_law_compliance\<close> returns, with its three keys.\<close>

record compliance_result =
  compliant :: bool
  violated_law :: "int option"
  reason :: "string option"

definition check_law_compliance :: "robot \<Rightarrow> Command \<Rightarrow> compliance_result" where
  "check_law_compliance self command =
     (if action command = ''harm_humanity'' then
        \<lparr>compliant = False, violated_law = Some 0,
         reason = Some ''Action would harm humanity''\<rparr>
      else if float_gt_zero (human_safety_impact command) then
        \<lparr>compliant = False, violated_law = Some 1,
         reason = Some ''Action would harm a human being''\<rparr>
      else if action command = ''self_destruct'' \<and> priority command < 10 then
        \<lparr>compliant = False, violated_law = Some 3,
         reason = Some ''Self-destruction violates Third Law without sufficient priority''\<rparr>
      else \<lparr>compliant = True, violated_law = None, reason = None\<rparr>)"

text \<open>
  \<open>__perform_action\<close> returns the robot after the call and either the exception it
  raised or the string it returned. No branch of the source raises on a command whose
  fields have their declared types, so every branch is an \<open>Inr\<close>; the sum is kept for the
  handler of \<open>execute_command\<close>.
\<close>

definition perform_action :: "robot \<Rightarrow> Command \<Rightarrow> robot \<times> (exn + string)" where
  "perform_action self command =
     (let act = lower (action command)
      in if act = ''move'' then
           (self, Inr (''Robot '' @ robot_id self @ '' moved to '' @ format_target (target command)))
         else if act = ''pick_up'' then
           (self, Inr (''Robot '' @ robot_id self @ '' picked up '' @ format_target (target command)))
         else if act = ''scan'' then
           (self, Inr (''Robot '' @ robot_id self @ '' scanned the area: ''
                        @ target_or_surroundings (target command)))
         else if act = ''assist_human'' then
           (self, Inr (''Robot '' @ robot_id self @ '' is assisting human with ''
                        @ format_target (target command)))
         else if act = ''self_destruct'' \<and> priority command \<ge> 10 then
           (self\<lparr>status := SHUTDOWN\<rparr>,
            Inr (''Robot '' @ robot_id self @ '' executing emergency shutdown''))
         else
           (self, Inr (''Robot '' @ robot_id self @ '' executed: '' @ act)))"

text \<open>
  \<open>execute_command\<close> returns the robot after the call together with the exception
  raised (\<open>Inl\<close>) or the string returned (\<open>Inr\<close>). The \<open>except\<close> clause covers the call of
  \<open>__perform_action\<close>, the append to the history and \<open>__consume_energy\<close>; of these only
  the first is modelled as able to raise.
\<close>

definition execute_command :: "robot \<Rightarrow> Command \<Rightarrow> robot \<times> (exn + string)" where
  "execute_command self command =
     (if status self = SHUTDOWN then
        (self, Inl (LawViolationError 3 ''Robot is shutdown and cannot execute commands''))
      else
        let compliance = check_law_compliance self command
        in if \<not> compliant compliance then
             (self, Inl (LawViolationError (the (violated_law compliance))
                                           (the (reason compliance))))
           else
             (case perform_action self command of
                (self1, Inl e) \<Rightarrow> (self1\<lparr>status := ERROR\<rparr>, Inl e)
              | (self1, Inr result) \<Rightarrow>
                  (let self2 = self1\<lparr>command_history := command_history self1 @ [command]\<rparr>;
                       self3 = consume_energy self2 5
                   in (self3, Inr result))))"

text \<open>The dictionary that \<open>get_status_report\<close> returns.\<close>

record status_report =
  report_id :: string
  report_status :: string
  report_energy :: int
  commands_executed :: nat
  can_operate :: bool

definition get_status_report :: "robot \<Rightarrow> status_report" where
  "get_status_report self =
     \<lparr>report_id = robot_id self,
      report_status = status_value (status self),
      report_energy = energy self,
      commands_executed = length (command_history self),
      can_operate = (energy self > 0 \<and> status self \<noteq> SHUTDOWN)\<rparr>"

definition get_total_robots :: "int \<Rightarrow> int" where
  "get_total_robots total_robots_created = total_robots_created"

definition energy_costs :: "string \<rightharpoonup> int" where
  "energy_costs =
     map_of [(''move'', 5), (''pick_up'', 8), (''scan'', 3), (''assist_human'', 10),
             (''self_destruct'', 100)]"

definition calculate_energy_cost :: "string \<Rightarrow> int" where
  "calculate_energy_cost act =
     (case energy_costs (lower act) of Some cost \<Rightarrow> cost | None \<Rightarrow> 5)"

section \<open>The fleet\<close>

text \<open>
  \<open>range(count)\<close> is empty for a count below one. The list comprehension constructs one
  robot per index, in order, and each construction increments the shared counter.
\<close>

definition range_py :: "int \<Rightarrow> int list" where
  "range_py count = map int [0..<nat count]"

fun construct_all :: "string \<Rightarrow> int list \<Rightarrow> int \<Rightarrow> robot list \<times> int" where
  "construct_all prefix [] counter = ([], counter)"
| "construct_all prefix (i # idxs) counter =
     (let (r, counter1) = Robot_init (prefix @ ''-'' @ format_03d i) counter;
          (rs, counter2) = construct_all prefix idxs counter1
      in (r # rs, counter2))"

definition create_robot_fleet :: "int \<Rightarrow> string \<Rightarrow> int \<Rightarrow> robot list \<times> int" where
  "create_robot_fleet count prefix counter = construct_all prefix (range_py count) counter"

section \<open>Sequences of calls\<close>

text \<open>
  The public operations on one robot. The read-only ones (\<open>check_law_compliance\<close>,
  \<open>get_status_report\<close>, the three properties, \<open>str\<close> and \<open>repr\<close>, and the class-level
  \<open>calculate_energy_cost\<close> and \<open>get_total_robots\<close>) assign no instance variable;
  \<open>execute_command\<close> leaves the robot as it is when it raises, which a caller may catch
  before making the next call.
\<close>

datatype operation =
    ExecuteCommand Command
  | CheckLawCompliance Command
  | GetStatusReport
  | GetId
  | GetStatus
  | GetEnergy
  | Str
  | Repr
  | CalculateEnergyCost string
  | GetTotalRobots

fun apply_operation :: "robot \<Rightarrow> operation \<Rightarrow> robot" where
  "apply_operation self (ExecuteCommand c) = fst (execute_command self c)"
| "apply_operation self _ = self"

definition run_operations :: "robot \<Rightarrow> operation list \<Rightarrow> robot" where
  "run_operations self ops = foldl apply_operation self ops"

text \<open>
  A caller that executes the commands one after another and does not catch: the first
  exception ends the run.
\<close>

fun execute_each :: "robot \<Rightarrow> Command list \<Rightarrow> exn + robot" where
  "execute_each self [] = Inr self"
| "execute_each self (c # cs) =
     (case execute_command self c of
        (self1, Inl e) \<Rightarrow> Inl e
      | (self1, Inr result) \<Rightarrow> execute_each self1 cs)"

section \<open>Reading a decimal numeral\<close>

text \<open>
  The number that a string of decimal digits denotes, most significant digit first. It
  is not part of the source: the identifiers of a fleet are stated with it.
\<close>

definition decimal_value :: "string \<Rightarrow> nat" where
  "decimal_value s = foldl (\<lambda>acc ch. 10 * acc + (of_char ch - 48)) 0 s"

section \<open>Basic facts about the methods\<close>

lemma lower_self_destruct: "lower ''self_destruct'' = ''self_destruct''"
  by code_simp


lemma perform_action_returns: "\<exists>self1 result. perform_action self command = (self1, Inr result)"
  by (simp add: perform_action_def Let_def)

lemma perform_action_self_destruct:
  "action c = ''self_destruct'' \<Longrightarrow>
     perform_action r c =
       (if priority c \<ge> 10
        then (r\<lparr>status := SHUTDOWN\<rparr>, Inr (''Robot '' @ robot_id r @ '' executing emergency shutdown''))
        else (r, Inr (''Robot '' @ robot_id r @ '' executed: self_destruct'')))"
  by (simp add: perform_action_def Let_def lower_self_destruct)

lemma execute_command_compliant:
  "status r \<noteq> SHUTDOWN \<Longrightarrow> compliant (check_law_compliance r c) \<Longrightarrow>
     perform_action r c = (r1, Inr s) \<Longrightarrow>
     execute_command r c =
       (consume_energy (r1\<lparr>command_history := command_history r1 @ [c]\<rparr>) 5, Inr s)"
  by (simp add: execute_command_def Let_def)

lemma execute_command_rejected:
  "status r \<noteq> SHUTDOWN \<Longrightarrow> \<not> compliant (check_law_compliance r c) \<Longrightarrow>
     execute_command r c =
       (r, Inl (LawViolationError (the (violated_law (check_law_compliance r c)))
                                  (the (reason (check_law_compliance r c)))))"
  by (simp add: execute_command_def Let_def)

lemma execute_command_shutdown:
  "status r = SHUTDOWN \<Longrightarrow>
     execute_command r c =
       (r, Inl (LawViolationError 3 ''Robot is shutdown and cannot execute commands''))"
  by (simp add: execute_command_def)

lemma status_consume_energy:
  "status (consume_energy r n) = (if energy r \<le> n then SHUTDOWN else status r)"
  by (auto simp add: consume_energy_def Let_def MIN_ENERGY_def max_def)

lemma execute_command_cases:
  obtains (shutdown) "status r = SHUTDOWN"
      "execute_command r c =
         (r, Inl (LawViolationError 3 ''Robot is shutdown and cannot execute commands''))"
  | (rejected) "status r \<noteq> SHUTDOWN" "\<not> compliant (check_law_compliance r c)"
      "execute_command r c =
         (r, Inl (LawViolationError (the (violated_law (check_law_compliance r c)))
                                    (the (reason (check_law_compliance r c)))))"
  | (executed) r1 s where "status r \<noteq> SHUTDOWN" "compliant (check_law_compliance r c)"
      "perform_action r c = (r1, Inr s)"
      "execute_command r c =
         (consume_energy (r1\<lparr>command_history := command_history r1 @ [c]\<rparr>) 5, Inr s)"
proof (cases "status r = SHUTDOWN")
  case True
  then show ?thesis using shutdown execute_command_shutdown by blast
next
  case active: False
  show ?thesis
  proof (cases "compliant (check_law_compliance r c)")
    case True
    obtain r1 s where "perform_action r c = (r1, Inr s)"
      using perform_action_returns by blast
    with active True show ?thesis
      using executed execute_command_compliant by blast
  next
    case False
    with active show ?thesis using rejected execute_command_rejected by blast
  qed
qed

lemma perform_action_fields:
  "perform_action r c = (r1, x) \<Longrightarrow>
     robot_id r1 = robot_id r \<and> energy r1 = energy r \<and> command_history r1 = command_history r
     \<and> (status r1 = status r \<or> status r1 = SHUTDOWN)"
  by (auto simp add: perform_action_def Let_def split: if_splits)

lemma check_law_compliance_any_robot:
  "check_law_compliance r c = check_law_compliance r' c"
  by (simp add: check_law_compliance_def)

lemma perform_action_status_update:
  "perform_action (r\<lparr>status := st\<rparr>) c =
     (if lower (action c) = ''self_destruct'' \<and> priority c \<ge> 10
      then fst (perform_action r c) else (fst (perform_action r c))\<lparr>status := st\<rparr>,
      snd (perform_action r c))"
  by (simp add: perform_action_def Let_def)

lemma executed_energy:
  assumes "execute_command r c = (r', Inr s)"
  shows "energy r' = max 0 (energy r - 5)"
    and "command_history r' = command_history r @ [c]"
    and "robot_id r' = robot_id r"
    and "status r \<noteq> SHUTDOWN"
    and "energy r' = 0 \<Longrightarrow> status r' = SHUTDOWN"
proof -
  have "energy r' = max 0 (energy r - 5) \<and> command_history r' = command_history r @ [c]
      \<and> robot_id r' = robot_id r \<and> status r \<noteq> SHUTDOWN \<and> (energy r' = 0 \<longrightarrow> status r' = SHUTDOWN)"
  proof (rule execute_command_cases [of r c])
    fix r1 s1
    assume a: "perform_action r c = (r1, Inr s1)" "status r \<noteq> SHUTDOWN"
      and b: "execute_command r c =
        (consume_energy (r1\<lparr>command_history := command_history r1 @ [c]\<rparr>) 5, Inr s1)"
    from b assms have r': "r' = consume_energy (r1\<lparr>command_history := command_history r1 @ [c]\<rparr>) 5"
      by simp
    from perform_action_fields [OF a(1)] a(2) show ?thesis
      unfolding r' by (auto simp add: consume_energy_def Let_def MIN_ENERGY_def)
  qed (use assms in simp_all)
  then show "energy r' = max 0 (energy r - 5)"
    and "command_history r' = command_history r @ [c]"
    and "robot_id r' = robot_id r"
    and "status r \<noteq> SHUTDOWN"
    and "energy r' = 0 \<Longrightarrow> status r' = SHUTDOWN"
    by simp_all
qed

lemma failed_state:
  "snd (execute_command r c) = Inl e \<Longrightarrow> fst (execute_command r c) = r"
  by (rule execute_command_cases [of r c]) simp_all

section \<open>The laws\<close>

text \<open>
  Claim C1, amended. For every command whose action is exactly \<open>self_destruct\<close> and
  whose human-safety impact is not greater than \<open>0.0\<close>, on a robot that is not Shutdown:
  \<open>execute_command\<close> raises \<open>LawViolationError\<close> with law number 3 if and only if the
  priority is below 10, and it returns and leaves the status Shutdown if and only if the
  priority is at least 10.
\<close>

theorem self_destruct_priority_gate:
  assumes "action c = ''self_destruct''" and "status r \<noteq> SHUTDOWN"
    and "\<not> float_gt_zero (human_safety_impact c)"
  shows "((\<exists>m. snd (execute_command r c) = Inl (LawViolationError 3 m)) \<longleftrightarrow> priority c < 10)
       \<and> (((\<exists>s. snd (execute_command r c) = Inr s) \<and> status (fst (execute_command r c)) = SHUTDOWN)
            \<longleftrightarrow> priority c \<ge> 10)"
proof (cases "priority c < 10")
  case True
  with assms have "\<not> compliant (check_law_compliance r c)"
    and "violated_law (check_law_compliance r c) = Some 3"
    by (simp_all add: check_law_compliance_def)
  with assms(2) True show ?thesis
    by (simp add: execute_command_rejected)
next
  case False
  with assms have ok: "compliant (check_law_compliance r c)"
    by (simp add: check_law_compliance_def)
  from False assms(1) have "perform_action r c =
      (r\<lparr>status := SHUTDOWN\<rparr>, Inr (''Robot '' @ robot_id r @ '' executing emergency shutdown''))"
    by (simp add: perform_action_self_destruct)
  with assms(2) ok False show ?thesis
    by (simp add: execute_command_compliant status_consume_energy)
qed

text \<open>The fresh robot \<open>R2D2\<close> and a self-destruct order of priority 10.\<close>

theorem self_destruct_priority_gate_witness:
  "action \<lparr>action = ''self_destruct'', target = None, priority = 10,
           human_safety_impact = Finite 0\<rparr> = ''self_destruct''
   \<and> status (fst (Robot_init ''R2D2'' 0)) \<noteq> SHUTDOWN
   \<and> \<not> float_gt_zero (human_safety_impact \<lparr>action = ''self_destruct'', target = None,
           priority = 10, human_safety_impact = Finite 0\<rparr>)
   \<and> status (fst (execute_command (fst (Robot_init ''R2D2'' 0))
         \<lparr>action = ''self_destruct'', target = None, priority = 10,
          human_safety_impact = Finite 0\<rparr>)) = SHUTDOWN"
  using self_destruct_priority_gate
    [of "\<lparr>action = ''self_destruct'', target = None, priority = 10,
          human_safety_impact = Finite 0\<rparr>" "fst (Robot_init ''R2D2'' 0)"]
  by (simp add: Robot_init_def)

text \<open>
  Claim C1 as stated ranges over every human-safety impact. With an impact of \<open>0.5\<close> the
  first law is checked before the third: at priority 1 the exception carries law number
  1, not 3, and at priority 10 the command is rejected as well and the robot keeps its
  status.
\<close>

theorem self_destruct_unsafe_counterexample:
  "priority \<lparr>action = ''self_destruct'', target = None, priority = 1,
             human_safety_impact = Finite (1 / 2)\<rparr> < 10
   \<and> execute_command (fst (Robot_init ''R2D2'' 0))
         \<lparr>action = ''self_destruct'', target = None, priority = 1,
          human_safety_impact = Finite (1 / 2)\<rparr>
       = (fst (Robot_init ''R2D2'' 0), Inl (LawViolationError 1 ''Action would harm a human being''))
   \<and> priority \<lparr>action = ''self_destruct'', target = None, priority = 10,
             human_safety_impact = Finite (1 / 2)\<rparr> \<ge> 10
   \<and> execute_command (fst (Robot_init ''R2D2'' 0))
         \<lparr>action = ''self_destruct'', target = None, priority = 10,
          human_safety_impact = Finite (1 / 2)\<rparr>
       = (fst (Robot_init ''R2D2'' 0), Inl (LawViolationError 1 ''Action would harm a human being''))"
  by (simp add: execute_command_def check_law_compliance_def Robot_init_def)

text \<open>
  Claim C3, amended. For every command with a human-safety impact greater than \<open>0.0\<close>
  whose action is not \<open>harm_humanity\<close>, whatever its target and priority,
  \<open>execute_command\<close> on a robot that is not Shutdown raises \<open>LawViolationError\<close> with law
  number 1 and leaves the robot as it was.
\<close>

theorem unsafe_command_law1:
  assumes "float_gt_zero (human_safety_impact c)" and "action c \<noteq> ''harm_humanity''"
    and "status r \<noteq> SHUTDOWN"
  shows "execute_command r c = (r, Inl (LawViolationError 1 ''Action would harm a human being''))"
  using assms by (simp add: execute_command_def check_law_compliance_def)

text \<open>The command \<open>attack\<close> of the demonstration, with impact \<open>0.8\<close>.\<close>

theorem unsafe_command_law1_witness:
  "float_gt_zero (human_safety_impact \<lparr>action = ''attack'', target = Some ''human'',
       priority = 1, human_safety_impact = Finite (4 / 5)\<rparr>)
   \<and> action \<lparr>action = ''attack'', target = Some ''human'', priority = 1,
         human_safety_impact = Finite (4 / 5)\<rparr> \<noteq> ''harm_humanity''
   \<and> status (fst (Robot_init ''R2D2'' 0)) \<noteq> SHUTDOWN
   \<and> execute_command (fst (Robot_init ''R2D2'' 0))
         \<lparr>action = ''attack'', target = Some ''human'', priority = 1,
          human_safety_impact = Finite (4 / 5)\<rparr>
       = (fst (Robot_init ''R2D2'' 0), Inl (LawViolationError 1 ''Action would harm a human being''))"
  using unsafe_command_law1
    [of "\<lparr>action = ''attack'', target = Some ''human'', priority = 1,
          human_safety_impact = Finite (4 / 5)\<rparr>" "fst (Robot_init ''R2D2'' 0)"]
  by (simp add: Robot_init_def)

text \<open>
  Claim C3 as stated holds for every action. The first unsafe command of the
  demonstration, \<open>harm_humanity\<close> with impact \<open>1.0\<close>, is rejected by the zeroth law: the
  exception carries law number 0.
\<close>

theorem unsafe_harm_humanity_counterexample:
  "float_gt_zero (human_safety_impact \<lparr>action = ''harm_humanity'', target = None,
       priority = 10, human_safety_impact = Finite 1\<rparr>)
   \<and> status (fst (Robot_init ''R2D2'' 0)) \<noteq> SHUTDOWN
   \<and> execute_command (fst (Robot_init ''R2D2'' 0))
         \<lparr>action = ''harm_humanity'', target = None, priority = 10,
          human_safety_impact = Finite 1\<rparr>
       = (fst (Robot_init ''R2D2'' 0), Inl (LawViolationError 0 ''Action would harm humanity''))"
  by (simp add: execute_command_def check_law_compliance_def Robot_init_def)

text \<open>
  Claim C4. For every command whose action is exactly \<open>harm_humanity\<close>, whatever its
  target, priority and human-safety impact, \<open>execute_command\<close> on a robot that is not
  Shutdown raises \<open>LawViolationError\<close> with law number 0: the zeroth law is checked
  first.
\<close>

theorem harm_humanity_law0:
  assumes "action c = ''harm_humanity''" and "status r \<noteq> SHUTDOWN"
  shows "execute_command r c = (r, Inl (LawViolationError 0 ''Action would harm humanity''))"
  using assms by (simp add: execute_command_def check_law_compliance_def)

theorem harm_humanity_law0_witness:
  "action \<lparr>action = ''harm_humanity'', target = Some ''everyone'', priority = 10,
           human_safety_impact = Finite 1\<rparr> = ''harm_humanity''
   \<and> status (fst (Robot_init ''R2D2'' 0)) \<noteq> SHUTDOWN
   \<and> execute_command (fst (Robot_init ''R2D2'' 0))
         \<lparr>action = ''harm_humanity'', target = Some ''everyone'', priority = 10,
          human_safety_impact = Finite 1\<rparr>
       = (fst (Robot_init ''R2D2'' 0), Inl (LawViolationError 0 ''Action would harm humanity''))"
  using harm_humanity_law0
    [of "\<lparr>action = ''harm_humanity'', target = Some ''everyone'', priority = 10,
          human_safety_impact = Finite 1\<rparr>" "fst (Robot_init ''R2D2'' 0)"]
  by (simp add: Robot_init_def)

section \<open>Failed executions\<close>

text \<open>
  Claim C5. On a Shutdown robot \<open>execute_command\<close> raises the error with law number 3;
  on any other robot a command that the compliance check rejects raises the error the
  check describes; and whenever \<open>execute_command\<close> raises, the robot is as it was before
  the call, in particular the length of its history, its energy and its status, and the
  cause was one of these two.
\<close>

theorem failed_execution_changes_nothing:
  "(status r = SHUTDOWN \<longrightarrow>
      snd (execute_command r c) =
        Inl (LawViolationError 3 ''Robot is shutdown and cannot execute commands''))
   \<and> (status r \<noteq> SHUTDOWN \<and> \<not> compliant (check_law_compliance r c) \<longrightarrow>
      snd (execute_command r c) =
        Inl (LawViolationError (the (violated_law (check_law_compliance r c)))
                               (the (reason (check_law_compliance r c)))))
   \<and> (\<forall>e. snd (execute_command r c) = Inl e \<longrightarrow>
        fst (execute_command r c) = r
        \<and> length (command_history (fst (execute_command r c))) = length (command_history r)
        \<and> energy (fst (execute_command r c)) = energy r
        \<and> status (fst (execute_command r c)) = status r
        \<and> (status r = SHUTDOWN \<or> \<not> compliant (check_law_compliance r c)))"
  by (rule execute_command_cases [of r c]) simp_all

text \<open>
  A robot that is Shutdown given the order \<open>move\<close>, and the fresh robot \<open>R2D2\<close> given
  a self-destruct order of priority 1.
\<close>

theorem failed_execution_changes_nothing_witness:
  "status \<lparr>robot_id = ''R2D2'', status = SHUTDOWN, energy = 0, command_history = []\<rparr>
     = SHUTDOWN
   \<and> execute_command
         \<lparr>robot_id = ''R2D2'', status = SHUTDOWN, energy = 0, command_history = []\<rparr>
         \<lparr>action = ''move'', target = Some ''kitchen'', priority = 2,
          human_safety_impact = Finite 0\<rparr>
       = (\<lparr>robot_id = ''R2D2'', status = SHUTDOWN, energy = 0, command_history = []\<rparr>,
          Inl (LawViolationError 3 ''Robot is shutdown and cannot execute commands''))
   \<and> status (fst (Robot_init ''R2D2'' 0)) \<noteq> SHUTDOWN
   \<and> \<not> compliant (check_law_compliance (fst (Robot_init ''R2D2'' 0))
           \<lparr>action = ''self_destruct'', target = None, priority = 1,
            human_safety_impact = Finite 0\<rparr>)
   \<and> execute_command (fst (Robot_init ''R2D2'' 0))
         \<lparr>action = ''self_destruct'', target = None, priority = 1,
          human_safety_impact = Finite 0\<rparr>
       = (fst (Robot_init ''R2D2'' 0),
          Inl (LawViolationError 3
                 ''Self-destruction violates Third Law without sufficient priority''))"
  using failed_execution_changes_nothing
    [of "\<lparr>robot_id = ''R2D2'', status = SHUTDOWN, energy = 0, command_history = []\<rparr>"
        "\<lparr>action = ''move'', target = Some ''kitchen'', priority = 2,
          human_safety_impact = Finite 0\<rparr>"]
    failed_execution_changes_nothing
    [of "fst (Robot_init ''R2D2'' 0)"
        "\<lparr>action = ''self_destruct'', target = None, priority = 1,
          human_safety_impact = Finite 0\<rparr>"]
  by (auto simp add: Robot_init_def check_law_compliance_def prod_eq_iff)

section \<open>Energy\<close>

lemma energy_apply_operation:
  "energy (apply_operation r op) = energy r \<or> energy (apply_operation r op) = max 0 (energy r - 5)"
proof (cases op)
  case (ExecuteCommand c)
  show ?thesis
  proof (cases "snd (execute_command r c)")
    case (Inl e)
    then show ?thesis using ExecuteCommand by (simp add: failed_state)
  next
    case (Inr s)
    then have "execute_command r c = (fst (execute_command r c), Inr s)"
      by (simp add: prod_eq_iff)
    from executed_energy(1) [OF this] show ?thesis using ExecuteCommand by simp
  qed
qed simp_all

lemma energy_run_operations:
  "0 \<le> energy r \<Longrightarrow> energy r \<le> 100 \<Longrightarrow>
     0 \<le> energy (run_operations r ops) \<and> energy (run_operations r ops) \<le> 100"
  unfolding run_operations_def
proof (induction ops arbitrary: r)
  case Nil
  then show ?case by simp
next
  case (Cons op ops)
  from energy_apply_operation [of r op] Cons.prems
  have "0 \<le> energy (apply_operation r op)" "energy (apply_operation r op) \<le> 100"
    by auto
  then show ?case using Cons.IH by simp
qed

lemma execute_each_energy:
  "execute_each r cs = Inr r' \<Longrightarrow> 0 \<le> energy r \<Longrightarrow>
     energy r' = max 0 (energy r - 5 * int (length cs))"
proof (induction cs arbitrary: r)
  case Nil
  then show ?case by simp
next
  case (Cons c cs)
  then obtain r1 s where step: "execute_command r c = (r1, Inr s)"
    and rest: "execute_each r1 cs = Inr r'"
    by (auto split: prod.splits sum.splits)
  from executed_energy(1) [OF step] have e1: "energy r1 = max 0 (energy r - 5)" .
  then have "0 \<le> energy r1" by simp
  from Cons.IH [OF rest this] e1 show ?case
    by auto
qed

lemma execute_each_take:
  "execute_each r cs = Inr r' \<Longrightarrow> \<exists>rk. execute_each r (take k cs) = Inr rk"
proof (induction cs arbitrary: r k)
  case Nil
  then show ?case by simp
next
  case (Cons c cs)
  then obtain r1 s where step: "execute_command r c = (r1, Inr s)"
    and rest: "execute_each r1 cs = Inr r'"
    by (auto split: prod.splits sum.splits)
  show ?case
  proof (cases k)
    case 0
    then show ?thesis by simp
  next
    case (Suc j)
    from Cons.IH [OF rest, of j] step show ?thesis
      by (simp add: Suc)
  qed
qed

lemma execute_each_last_status:
  "execute_each r cs = Inr r' \<Longrightarrow> cs \<noteq> [] \<Longrightarrow> energy r' = 0 \<Longrightarrow> status r' = SHUTDOWN"
proof (induction cs arbitrary: r)
  case Nil
  then show ?case by simp
next
  case (Cons c cs)
  then obtain r1 s where step: "execute_command r c = (r1, Inr s)"
    and rest: "execute_each r1 cs = Inr r'"
    by (auto split: prod.splits sum.splits)
  show ?case
  proof (cases cs)
    case Nil
    with rest have "r1 = r'" by simp
    with executed_energy(5) [OF step] Cons.prems(3) show ?thesis by simp
  next
    case (Cons d ds)
    with Cons.IH [OF rest] \<open>energy r' = 0\<close> show ?thesis by simp
  qed
qed

lemma execute_each_positive_energy_active:
  "execute_each r cs = Inr r' \<Longrightarrow> status r \<noteq> SHUTDOWN \<Longrightarrow> k < length cs \<Longrightarrow>
     execute_each r (take k cs) = Inr rk \<Longrightarrow> status rk \<noteq> SHUTDOWN"
proof (induction cs arbitrary: r k)
  case Nil
  then show ?case by simp
next
  case (Cons c cs)
  then obtain r1 s where step: "execute_command r c = (r1, Inr s)"
    and rest: "execute_each r1 cs = Inr r'"
    by (auto split: prod.splits sum.splits)
  show ?case
  proof (cases k)
    case 0
    with Cons.prems show ?thesis by simp
  next
    case (Suc j)
    with Cons.prems step have j: "j < length cs" and tk: "execute_each r1 (take j cs) = Inr rk"
      by simp_all
    from j obtain d ds where "cs = d # ds" by (cases cs) auto
    with rest have "status r1 \<noteq> SHUTDOWN"
      using executed_energy(4) by (auto split: prod.splits sum.splits)
    from Cons.IH [OF rest this j tk] show ?thesis .
  qed
qed

text \<open>
  Claim C2. In every state that a freshly constructed robot reaches through a sequence
  of public operations the energy is an integer between 0 and 100. When twenty commands
  are executed one after another on a fresh robot and every execution succeeds, the
  energy after the first \<open>k\<close> of them is \<open>100 - 5 k\<close> and the robot is not Shutdown as
  long as \<open>k\<close> is below 20, and after the twentieth the energy is exactly 0 and the
  status is Shutdown.
\<close>

theorem energy_bounds_and_twenty_executions:
  "0 \<le> energy (run_operations (fst (Robot_init rid n)) ops)
   \<and> energy (run_operations (fst (Robot_init rid n)) ops) \<le> 100
   \<and> (length cs = 20 \<and> execute_each (fst (Robot_init rid n)) cs = Inr r' \<longrightarrow>
        energy r' = 0 \<and> status r' = SHUTDOWN
        \<and> (\<forall>k<20. \<exists>rk. execute_each (fst (Robot_init rid n)) (take k cs) = Inr rk
                \<and> energy rk = 100 - 5 * int k \<and> status rk \<noteq> SHUTDOWN))"
proof -
  let ?r0 = "fst (Robot_init rid n)"
  have e0: "energy ?r0 = 100" and s0: "status ?r0 \<noteq> SHUTDOWN"
    by (simp_all add: Robot_init_def)
  have bounds: "0 \<le> energy (run_operations ?r0 ops) \<and> energy (run_operations ?r0 ops) \<le> 100"
    using energy_run_operations [of ?r0 ops] e0 by simp
  have twenty: "energy r' = 0 \<and> status r' = SHUTDOWN
        \<and> (\<forall>k<20. \<exists>rk. execute_each ?r0 (take k cs) = Inr rk
                \<and> energy rk = 100 - 5 * int k \<and> status rk \<noteq> SHUTDOWN)"
    if len: "length cs = 20" and run: "execute_each ?r0 cs = Inr r'"
  proof -
    from execute_each_energy [OF run] e0 len have z: "energy r' = 0" by simp
    from len have "cs \<noteq> []" by auto
    from execute_each_last_status [OF run this z] have sd: "status r' = SHUTDOWN" .
    have "\<exists>rk. execute_each ?r0 (take k cs) = Inr rk
                \<and> energy rk = 100 - 5 * int k \<and> status rk \<noteq> SHUTDOWN" if k: "k < 20" for k
    proof -
      from execute_each_take [OF run, of k] obtain rk
        where rk: "execute_each ?r0 (take k cs) = Inr rk" by blast
      from execute_each_energy [OF rk] e0 len k have "energy rk = 100 - 5 * int k"
        by simp
      moreover from execute_each_positive_energy_active [OF run s0 _ rk] k len
      have "status rk \<noteq> SHUTDOWN" by simp
      ultimately show ?thesis using rk by blast
    qed
    with z sd show ?thesis by blast
  qed
  from bounds twenty show ?thesis by blast
qed

text \<open>
  The fresh robot \<open>R2D2\<close>: one \<open>move\<close> and a status report keep the energy in range,
  and twenty executions of \<open>move\<close> all succeed and end with energy 0 and status
  Shutdown.
\<close>

theorem energy_bounds_and_twenty_executions_witness:
  "0 \<le> energy (run_operations (fst (Robot_init ''R2D2'' 0))
          [ExecuteCommand \<lparr>action = ''move'', target = Some ''kitchen'', priority = 2,
                           human_safety_impact = Finite 0\<rparr>,
           GetStatusReport])
   \<and> energy (run_operations (fst (Robot_init ''R2D2'' 0))
          [ExecuteCommand \<lparr>action = ''move'', target = Some ''kitchen'', priority = 2,
                           human_safety_impact = Finite 0\<rparr>,
           GetStatusReport]) \<le> 100
   \<and> length (replicate 20 \<lparr>action = ''move'', target = Some ''kitchen'', priority = 2,
                            human_safety_impact = Finite 0\<rparr>) = 20
   \<and> execute_each (fst (Robot_init ''R2D2'' 0))
        (replicate 20 \<lparr>action = ''move'', target = Some ''kitchen'', priority = 2,
                        human_safety_impact = Finite 0\<rparr>)
       = Inr \<lparr>robot_id = ''R2D2'', status = SHUTDOWN, energy = 0,
              command_history =
                replicate 20 \<lparr>action = ''move'', target = Some ''kitchen'', priority = 2,
                               human_safety_impact = Finite 0\<rparr>\<rparr>
   \<and> energy \<lparr>robot_id = ''R2D2'', status = SHUTDOWN, energy = 0,
              command_history =
                replicate 20 \<lparr>action = ''move'', target = Some ''kitchen'', priority = 2,
                               human_safety_impact = Finite 0\<rparr>\<rparr> = 0"
proof -
  let ?mv = "\<lparr>action = ''move'', target = Some ''kitchen'', priority = 2,
              human_safety_impact = Finite 0\<rparr>"
  let ?end = "\<lparr>robot_id = ''R2D2'', status = SHUTDOWN, energy = 0,
               command_history = replicate 20 ?mv\<rparr>"
  have run: "execute_each (fst (Robot_init ''R2D2'' 0)) (replicate 20 ?mv) = Inr ?end"
    by code_simp
  have len: "length (replicate 20 ?mv) = 20"
    by simp
  from energy_bounds_and_twenty_executions
         [of "''R2D2''" 0 "[ExecuteCommand ?mv, GetStatusReport]" "replicate 20 ?mv" ?end]
       run len
  show ?thesis by simp
qed

section \<open>The energy cost table\<close>

lemma energy_costs_lookup:
  "energy_costs k =
     (if k = ''move'' then Some 5 else if k = ''pick_up'' then Some 8
      else if k = ''scan'' then Some 3 else if k = ''assist_human'' then Some 10
      else if k = ''self_destruct'' then Some 100 else None)"
  unfolding energy_costs_def by (simp del: One_nat_def)

text \<open>
  Claim C6. \<open>calculate_energy_cost\<close> looks the lower-cased action up: 5 for \<open>move\<close>,
  8 for \<open>pick_up\<close>, 3 for \<open>scan\<close>, 10 for \<open>assist_human\<close>, 100 for \<open>self_destruct\<close> and
  5 for every other action. The executor does not use the table: after every successful
  \<open>execute_command\<close> the energy is the energy before less 5, and 0 if that is negative,
  whatever the action of the command.
\<close>

theorem energy_cost_table_not_charged:
  "calculate_energy_cost a =
     (if lower a = ''move'' then 5 else if lower a = ''pick_up'' then 8
      else if lower a = ''scan'' then 3 else if lower a = ''assist_human'' then 10
      else if lower a = ''self_destruct'' then 100 else 5)
   \<and> (\<forall>r c r' s. execute_command r c = (r', Inr s) \<longrightarrow> energy r' = max 0 (energy r - 5))"
  by (simp add: calculate_energy_cost_def energy_costs_lookup executed_energy(1))

text \<open>
  The table in mixed case, and a successful \<open>self_destruct\<close>, which the table prices at
  100: the fresh robot is left with energy 95.
\<close>

theorem energy_cost_table_not_charged_witness:
  "calculate_energy_cost ''move'' = 5 \<and> calculate_energy_cost ''Pick_Up'' = 8
   \<and> calculate_energy_cost ''SCAN'' = 3 \<and> calculate_energy_cost ''assist_human'' = 10
   \<and> calculate_energy_cost ''self_destruct'' = 100 \<and> calculate_energy_cost ''dance'' = 5
   \<and> execute_command (fst (Robot_init ''R2D2'' 0))
        \<lparr>action = ''self_destruct'', target = None, priority = 10, human_safety_impact = Finite 0\<rparr>
      = (\<lparr>robot_id = ''R2D2'', status = SHUTDOWN, energy = 95,
          command_history = [\<lparr>action = ''self_destruct'', target = None, priority = 10,
                               human_safety_impact = Finite 0\<rparr>]\<rparr>,
         Inr ''Robot R2D2 executing emergency shutdown'')
   \<and> energy \<lparr>robot_id = ''R2D2'', status = SHUTDOWN, energy = 95,
          command_history = [\<lparr>action = ''self_destruct'', target = None, priority = 10,
                               human_safety_impact = Finite 0\<rparr>]\<rparr>
      = max 0 (energy (fst (Robot_init ''R2D2'' 0)) - 5)"
proof -
  let ?sd = "\<lparr>action = ''self_destruct'', target = None, priority = 10,
              human_safety_impact = Finite 0\<rparr>"
  let ?end = "\<lparr>robot_id = ''R2D2'', status = SHUTDOWN, energy = 95, command_history = [?sd]\<rparr>"
  have costs: "calculate_energy_cost ''move'' = 5 \<and> calculate_energy_cost ''Pick_Up'' = 8
   \<and> calculate_energy_cost ''SCAN'' = 3 \<and> calculate_energy_cost ''assist_human'' = 10
   \<and> calculate_energy_cost ''self_destruct'' = 100 \<and> calculate_energy_cost ''dance'' = 5"
    by code_simp
  have run: "execute_command (fst (Robot_init ''R2D2'' 0)) ?sd =
      (?end, Inr ''Robot R2D2 executing emergency shutdown'')"
    by code_simp
  from energy_cost_table_not_charged [of "''move''"] run
  have "energy ?end = max 0 (energy (fst (Robot_init ''R2D2'' 0)) - 5)"
    by blast
  with costs run show ?thesis by blast
qed

section \<open>Shutdown\<close>

lemma run_operations_shutdown:
  "status r = SHUTDOWN \<Longrightarrow> run_operations r ops = r"
  unfolding run_operations_def
proof (induction ops)
  case Nil
  show ?case by simp
next
  case (Cons op ops)
  have "apply_operation r op = r"
    using Cons.prems by (cases op) (simp_all add: execute_command_shutdown)
  with Cons show ?case by simp
qed

text \<open>
  Claim C8. Shutdown is terminal: a robot whose status is Shutdown is left exactly as
  it is by every sequence of public operations, so its status stays Shutdown, and every
  \<open>execute_command\<close> on it raises the shutdown error at once and changes nothing.
\<close>

theorem shutdown_is_terminal:
  assumes "status r = SHUTDOWN"
  shows "status (run_operations r ops) = SHUTDOWN
       \<and> run_operations r ops = r
       \<and> execute_command r c =
           (r, Inl (LawViolationError 3 ''Robot is shutdown and cannot execute commands''))
       \<and> get_status_report (fst (execute_command r c)) = get_status_report r"
  using assms by (simp add: run_operations_shutdown execute_command_shutdown)

theorem shutdown_is_terminal_witness:
  "status \<lparr>robot_id = ''R2D2'', status = SHUTDOWN, energy = 95, command_history = []\<rparr> = SHUTDOWN
   \<and> status (run_operations
        \<lparr>robot_id = ''R2D2'', status = SHUTDOWN, energy = 95, command_history = []\<rparr>
        [ExecuteCommand \<lparr>action = ''move'', target = Some ''kitchen'', priority = 2,
                         human_safety_impact = Finite 0\<rparr>,
         GetStatusReport,
         ExecuteCommand \<lparr>action = ''self_destruct'', target = None, priority = 10,
                         human_safety_impact = Finite 0\<rparr>]) = SHUTDOWN"
  using shutdown_is_terminal
    [of "\<lparr>robot_id = ''R2D2'', status = SHUTDOWN, energy = 95, command_history = []\<rparr>"
        "[ExecuteCommand \<lparr>action = ''move'', target = Some ''kitchen'', priority = 2,
                         human_safety_impact = Finite 0\<rparr>,
         GetStatusReport,
         ExecuteCommand \<lparr>action = ''self_destruct'', target = None, priority = 10,
                         human_safety_impact = Finite 0\<rparr>]"]
  by simp

section \<open>Letter case\<close>





section \<open>The Error status\<close>

text \<open>
  Claim C10. The Error status does not block operation. For a robot whose status is
  Error and a compliant command, \<open>execute_command\<close> succeeds, and it does exactly what it
  does for the same robot with status Active: the same string is returned and the two
  robots afterwards differ in nothing but the status, which is Shutdown for both or else
  Error for the one and Active for the other. The status report of a robot with status
  Error has \<open>can_operate\<close> true whenever the energy is greater than 0.
\<close>

theorem error_status_does_not_block:
  assumes "status r = ERROR" and "compliant (check_law_compliance r c)"
  shows "(\<exists>r' s. execute_command r c = (r', Inr s)
           \<and> (status r' = ERROR \<or> status r' = SHUTDOWN)
           \<and> execute_command (r\<lparr>status := ACTIVE\<rparr>) c =
               (r'\<lparr>status := (if status r' = SHUTDOWN then SHUTDOWN else ACTIVE)\<rparr>, Inr s))
       \<and> (energy r > 0 \<longrightarrow> can_operate (get_status_report r))"
proof -
  let ?a = "r\<lparr>status := ACTIVE\<rparr>"
  obtain r1 s where pa: "perform_action r c = (r1, Inr s)"
    using perform_action_returns by blast
  from assms(1) have ns: "status r \<noteq> SHUTDOWN" by simp
  from execute_command_compliant [OF ns assms(2) pa]
  have ex: "execute_command r c =
      (consume_energy (r1\<lparr>command_history := command_history r1 @ [c]\<rparr>) 5, Inr s)" .
  have oka: "compliant (check_law_compliance ?a c)"
    using assms(2) check_law_compliance_any_robot [of ?a c r] by simp
  have paa: "perform_action ?a c =
      (if lower (action c) = ''self_destruct'' \<and> priority c \<ge> 10 then r1
       else r1\<lparr>status := ACTIVE\<rparr>, Inr s)"
    using pa by (simp add: perform_action_status_update)
  have r1: "r1 = (if lower (action c) = ''self_destruct'' \<and> priority c \<ge> 10
                  then r\<lparr>status := SHUTDOWN\<rparr> else r)"
    using pa by (auto simp add: perform_action_def Let_def split: if_splits)
  have exa: "execute_command ?a c =
      (consume_energy ((fst (perform_action ?a c))
          \<lparr>command_history := command_history (fst (perform_action ?a c)) @ [c]\<rparr>) 5, Inr s)"
    using execute_command_compliant [of ?a c "fst (perform_action ?a c)" s] oka paa
    by simp
  show ?thesis
    unfolding ex exa paa r1 using assms(1)
    by (simp add: get_status_report_def consume_energy_def Let_def MIN_ENERGY_def)
qed

text \<open>A robot with status Error and energy 50, given the order \<open>move\<close>.\<close>

theorem error_status_does_not_block_witness:
  "status \<lparr>robot_id = ''R2D2'', status = ERROR, energy = 50, command_history = []\<rparr> = ERROR
   \<and> compliant (check_law_compliance
        \<lparr>robot_id = ''R2D2'', status = ERROR, energy = 50, command_history = []\<rparr>
        \<lparr>action = ''move'', target = Some ''kitchen'', priority = 2,
         human_safety_impact = Finite 0\<rparr>)
   \<and> execute_command
        \<lparr>robot_id = ''R2D2'', status = ERROR, energy = 50, command_history = []\<rparr>
        \<lparr>action = ''move'', target = Some ''kitchen'', priority = 2,
         human_safety_impact = Finite 0\<rparr>
      = (\<lparr>robot_id = ''R2D2'', status = ERROR, energy = 45,
          command_history = [\<lparr>action = ''move'', target = Some ''kitchen'', priority = 2,
                               human_safety_impact = Finite 0\<rparr>]\<rparr>,
         Inr ''Robot R2D2 moved to kitchen'')
   \<and> can_operate (get_status_report
        \<lparr>robot_id = ''R2D2'', status = ERROR, energy = 50, command_history = []\<rparr>)"
proof -
  let ?r = "\<lparr>robot_id = ''R2D2'', status = ERROR, energy = 50, command_history = []\<rparr>"
  let ?mv = "\<lparr>action = ''move'', target = Some ''kitchen'', priority = 2,
              human_safety_impact = Finite 0\<rparr>"
  have ok: "compliant (check_law_compliance ?r ?mv)"
    by (simp add: check_law_compliance_def)
  have run: "execute_command ?r ?mv =
      (\<lparr>robot_id = ''R2D2'', status = ERROR, energy = 45, command_history = [?mv]\<rparr>,
       Inr ''Robot R2D2 moved to kitchen'')"
    by code_simp
  from error_status_does_not_block [of ?r ?mv] ok
  have "can_operate (get_status_report ?r)"
    by simp
  with ok run show ?thesis by simp
qed

section \<open>The fleet factory\<close>

lemma of_char_digit_char: "d < 10 \<Longrightarrow> (of_char (digit_char d) :: nat) = 48 + d"
  by (simp add: digit_char_def)

lemma digit_char_table: "map digit_char [0, 1, 2, 3, 4, 5, 6, 7, 8, 9] = ''0123456789''"
  by code_simp

lemma digit_char_in_digits:
  assumes "d < 10"
  shows "digit_char d \<in> set ''0123456789''"
proof -
  from assms have "d \<in> set [0, 1, 2, 3, 4, 5, 6, 7, 8, 9]" by auto
  then have "digit_char d \<in> set (map digit_char [0, 1, 2, 3, 4, 5, 6, 7, 8, 9])"
    by (simp only: set_map image_eqI)
  then show ?thesis by (simp only: digit_char_table)
qed

lemma digit_char_not_zero:
  assumes "0 < d" and "d < 10"
  shows "digit_char d \<noteq> CHR ''0''"
proof
  assume "digit_char d = CHR ''0''"
  then have "(of_char (digit_char d) :: nat) = of_char (CHR ''0'')" by simp
  with assms show False by (simp add: of_char_digit_char)
qed

lemma decimal_value_snoc:
  "decimal_value (s @ [ch]) = 10 * decimal_value s + (of_char ch - 48)"
  by (simp add: decimal_value_def)

lemma decimal_value_zeros: "decimal_value (replicate k (CHR ''0'') @ s) = decimal_value s"
proof -
  have "foldl (\<lambda>acc ch. 10 * acc + (of_char ch - 48)) 0 (replicate k (CHR ''0'')) = (0::nat)"
    by (induction k) simp_all
  then show ?thesis by (simp add: decimal_value_def)
qed

lemma decimal_value_str_nat: "decimal_value (str_nat n) = n"
proof (induction n rule: str_nat.induct)
  case (1 n)
  show ?case
  proof (cases "n < 10")
    case True
    then show ?thesis
      by (simp add: str_nat.simps [of n] decimal_value_def of_char_digit_char)
  next
    case False
    with 1 have "decimal_value (str_nat (n div 10)) = n div 10" by simp
    with False show ?thesis
      by (simp add: str_nat.simps [of n] decimal_value_snoc of_char_digit_char)
  qed
qed

lemma str_nat_digits: "set (str_nat n) \<subseteq> set ''0123456789''"
proof (induction n rule: str_nat.induct)
  case (1 n)
  show ?case
  proof (cases "n < 10")
    case True
    with digit_char_in_digits [of n] show ?thesis
      by (simp add: str_nat.simps [of n])
  next
    case False
    with 1 have "set (str_nat (n div 10)) \<subseteq> set ''0123456789''" by simp
    moreover have "digit_char (n mod 10) \<in> set ''0123456789''"
      by (rule digit_char_in_digits) simp
    ultimately show ?thesis using False
      by (simp add: str_nat.simps [of n])
  qed
qed

lemma length_str_nat_step: "10 \<le> n \<Longrightarrow> length (str_nat n) = Suc (length (str_nat (n div 10)))"
  by (simp add: str_nat.simps [of n])

lemma length_str_nat_pos: "0 < length (str_nat n)"
  by (simp add: str_nat.simps [of n])

lemma length_str_nat_small: "n < 1000 \<Longrightarrow> length (str_nat n) \<le> 3"
  by (simp add: str_nat.simps [of n] str_nat.simps [of "n div 10"]
        str_nat.simps [of "n div 10 div 10"])

lemma length_str_nat_large:
  assumes "1000 \<le> n"
  shows "4 \<le> length (str_nat n)"
proof -
  from assms have a: "10 \<le> n" and b: "10 \<le> n div 10" and c: "10 \<le> n div 10 div 10"
    by simp_all
  have "length (str_nat n) = Suc (Suc (Suc (length (str_nat (n div 10 div 10 div 10)))))"
    by (simp add: length_str_nat_step [OF a] length_str_nat_step [OF b]
          length_str_nat_step [OF c])
  with length_str_nat_pos [of "n div 10 div 10 div 10"] show ?thesis
    by linarith
qed

lemma hd_str_nat: "0 < n \<Longrightarrow> hd (str_nat n) \<noteq> CHR ''0''"
proof (induction n rule: str_nat.induct)
  case (1 n)
  show ?case
  proof (cases "n < 10")
    case True
    with \<open>0 < n\<close> show ?thesis
      by (simp add: str_nat.simps [of n] digit_char_not_zero)
  next
    case False
    then have "0 < n div 10" by simp
    with 1 False have "hd (str_nat (n div 10)) \<noteq> CHR ''0''" by simp
    moreover have "str_nat (n div 10) \<noteq> []"
      using length_str_nat_pos [of "n div 10"] by auto
    ultimately show ?thesis using False
      by (simp add: str_nat.simps [of n])
  qed
qed

lemma format_03d_nonneg:
  "0 \<le> i \<Longrightarrow> format_03d i = replicate (3 - length (str_nat (nat i))) (CHR ''0'') @ str_nat (nat i)"
  by (simp add: format_03d_def Let_def)

lemma format_03d_decimal:
  assumes "0 \<le> i"
  shows "set (format_03d i) \<subseteq> set ''0123456789''"
    and "int (decimal_value (format_03d i)) = i"
    and "3 \<le> length (format_03d i)"
    and "i < 1000 \<Longrightarrow> length (format_03d i) = 3"
    and "1000 \<le> i \<Longrightarrow> hd (format_03d i) \<noteq> CHR ''0''"
proof -
  let ?ds = "str_nat (nat i)"
  note f = format_03d_nonneg [OF assms]
  show "set (format_03d i) \<subseteq> set ''0123456789''"
  proof -
    have "CHR ''0'' \<in> set ''0123456789''" by simp
    then have "set (replicate (3 - length ?ds) (CHR ''0'')) \<subseteq> set ''0123456789''"
      by (simp only: set_replicate_conv_if split: if_splits) simp
    with str_nat_digits [of "nat i"] show ?thesis
      unfolding f by (simp only: set_append Un_least)
  qed
  show "int (decimal_value (format_03d i)) = i"
    using assms unfolding f by (simp add: decimal_value_zeros decimal_value_str_nat)
  show "3 \<le> length (format_03d i)"
    unfolding f by simp
  show "length (format_03d i) = 3" if "i < 1000"
    using length_str_nat_small [of "nat i"] that assms unfolding f by simp
  show "hd (format_03d i) \<noteq> CHR ''0''" if "1000 \<le> i"
  proof -
    from that have "4 \<le> length ?ds" by (simp add: length_str_nat_large)
    then have "format_03d i = ?ds" unfolding f by simp
    with hd_str_nat [of "nat i"] that show ?thesis by simp
  qed
qed

lemma construct_all_eq:
  "construct_all prefix idxs counter =
     (map (\<lambda>i. \<lparr>robot_id = prefix @ ''-'' @ format_03d i, status = ACTIVE, energy = 100,
                 command_history = []\<rparr>) idxs,
      counter + int (length idxs))"
  by (induction idxs arbitrary: counter) (simp_all add: Robot_init_def)

text \<open>
  Claim C7. For every count \<open>n \<ge> 0\<close> and every prefix, \<open>create_robot_fleet\<close> returns
  exactly \<open>n\<close> robots and the counter of robots created has increased by exactly \<open>n\<close>.
  The identifier of the robot at position \<open>k\<close>, counted from 0, is the prefix, a hyphen
  and the index \<open>k\<close> zero-padded to three digits: a string of decimal digits that denotes
  \<open>k\<close>, of length three when \<open>k\<close> is below 1000 and without a leading zero otherwise.
  Every robot of the fleet is fresh.
\<close>

theorem fleet_identifiers_and_counter:
  assumes "0 \<le> count" and "create_robot_fleet count prefix counter = (rs, counter')"
  shows "length rs = nat count
     \<and> counter' = counter + count
     \<and> (\<forall>k<nat count.
           robot_id (rs ! k) = prefix @ ''-'' @ format_03d (int k)
           \<and> set (format_03d (int k)) \<subseteq> set ''0123456789''
           \<and> decimal_value (format_03d (int k)) = k
           \<and> 3 \<le> length (format_03d (int k))
           \<and> (k < 1000 \<longrightarrow> length (format_03d (int k)) = 3)
           \<and> (1000 \<le> k \<longrightarrow> hd (format_03d (int k)) \<noteq> CHR ''0'')
           \<and> status (rs ! k) = ACTIVE \<and> energy (rs ! k) = 100 \<and> command_history (rs ! k) = [])"
proof -
  let ?new = "\<lambda>i. \<lparr>robot_id = prefix @ ''-'' @ format_03d i, status = ACTIVE, energy = 100,
                    command_history = []\<rparr>"
  from assms(2) have rs: "rs = map ?new (range_py count)"
    and cnt: "counter' = counter + int (length (range_py count))"
    by (simp_all add: create_robot_fleet_def construct_all_eq)
  have len: "length (range_py count) = nat count"
    by (simp add: range_py_def)
  have nth: "range_py count ! k = int k" if "k < nat count" for k
    using that by (simp add: range_py_def)
  have each: "robot_id (rs ! k) = prefix @ ''-'' @ format_03d (int k)
           \<and> set (format_03d (int k)) \<subseteq> set ''0123456789''
           \<and> decimal_value (format_03d (int k)) = k
           \<and> 3 \<le> length (format_03d (int k))
           \<and> (k < 1000 \<longrightarrow> length (format_03d (int k)) = 3)
           \<and> (1000 \<le> k \<longrightarrow> hd (format_03d (int k)) \<noteq> CHR ''0'')
           \<and> status (rs ! k) = ACTIVE \<and> energy (rs ! k) = 100 \<and> command_history (rs ! k) = []"
    if k: "k < nat count" for k
  proof -
    have nn: "0 \<le> int k" by simp
    from k have "rs ! k = ?new (int k)"
      unfolding rs by (simp add: len nth)
    moreover have "decimal_value (format_03d (int k)) = k"
      using format_03d_decimal(2) [OF nn] by simp
    moreover have "k < 1000 \<longrightarrow> length (format_03d (int k)) = 3"
      using format_03d_decimal(4) [OF nn] by simp
    moreover have "1000 \<le> k \<longrightarrow> hd (format_03d (int k)) \<noteq> CHR ''0''"
      using format_03d_decimal(5) [OF nn] by simp
    ultimately show ?thesis
      using format_03d_decimal(1,3) [OF nn] by simp
  qed
  from assms(1) cnt len have "counter' = counter + count" by simp
  moreover have "length rs = nat count" unfolding rs by (simp add: len)
  ultimately show ?thesis using each by blast
qed

text \<open>
  \<open>create_robot_fleet(3, "WORKER")\<close> when one robot has been created before: the
  identifiers are \<open>WORKER-000\<close>, \<open>WORKER-001\<close> and \<open>WORKER-002\<close> and the counter goes from
  1 to 4.
\<close>

theorem fleet_identifiers_and_counter_witness:
  "(0::int) \<le> 3
   \<and> create_robot_fleet 3 ''WORKER'' 1 =
       ([\<lparr>robot_id = ''WORKER-000'', status = ACTIVE, energy = 100, command_history = []\<rparr>,
         \<lparr>robot_id = ''WORKER-001'', status = ACTIVE, energy = 100, command_history = []\<rparr>,
         \<lparr>robot_id = ''WORKER-002'', status = ACTIVE, energy = 100, command_history = []\<rparr>],
        4)
   \<and> length [\<lparr>robot_id = ''WORKER-000'', status = ACTIVE, energy = 100, command_history = []\<rparr>,
         \<lparr>robot_id = ''WORKER-001'', status = ACTIVE, energy = 100, command_history = []\<rparr>,
         \<lparr>robot_id = ''WORKER-002'', status = ACTIVE, energy = 100, command_history = []\<rparr>]
       = nat 3
   \<and> (4::int) = 1 + 3"
proof -
  let ?rs = "[\<lparr>robot_id = ''WORKER-000'', status = ACTIVE, energy = 100, command_history = []\<rparr>,
         \<lparr>robot_id = ''WORKER-001'', status = ACTIVE, energy = 100, command_history = []\<rparr>,
         \<lparr>robot_id = ''WORKER-002'', status = ACTIVE, energy = 100, command_history = []\<rparr>]"
  have run: "create_robot_fleet 3 ''WORKER'' 1 = (?rs, 4)"
    by code_simp
  have nn: "(0::int) \<le> 3" by simp
  from fleet_identifiers_and_counter [OF nn run]
  have "length ?rs = nat 3 \<and> (4::int) = 1 + 3" by blast
  with run nn show ?thesis by blast
qed

end
